theory Spec2Isabelle
  imports Main
begin

section \<open>OAuth authorization-server routes (src/mcp/server/auth/routes.py)\<close>

text \<open>
  A shallow embedding of the module that validates the issuer URL, builds the
  authorization-server metadata document and assembles the route tables.
  Every function of the module is translated: \<open>validate_issuer_url\<close>,
  \<open>cors_middleware\<close>, \<open>create_auth_routes\<close>, \<open>build_metadata\<close> and
  \<open>create_protected_resource_routes\<close>. An exception is a value \<open>Inl e\<close> of a sum
  type; Python's \<open>None\<close> is \<open>None\<close> of an option type.
\<close>

subsection \<open>Python strings\<close>

text \<open>\<open>s.startswith(p)\<close>: the first \<open>len(p)\<close> characters of \<open>s\<close> are \<open>p\<close>.\<close>

definition startswith :: "string \<Rightarrow> string \<Rightarrow> bool" where
  "startswith s p = (take (length p) s = p)"

text \<open>
  \<open>s.rstrip(chars)\<close>: every trailing character that occurs in \<open>chars\<close> is removed,
  however many there are.
\<close>

definition rstrip :: "string \<Rightarrow> string \<Rightarrow> string" where
  "rstrip s chars = rev (dropWhile (\<lambda>c. c \<in> set chars) (rev s))"

text \<open>
  The truth value of a \<open>str | None\<close> in a condition (\<open>if url.fragment:\<close>):
  \<open>None\<close> and the empty string are false, every other string is true.
\<close>

definition truthy :: "string option \<Rightarrow> bool" where
  "truthy v = (case v of None \<Rightarrow> False | Some s \<Rightarrow> s \<noteq> [])"

text \<open>
  \<open>x or d\<close> for an optional settings object: an object is always true, so the
  default is taken exactly when \<open>x\<close> is \<open>None\<close>.
\<close>

definition or_default :: "'a option \<Rightarrow> 'a \<Rightarrow> 'a" where
  "or_default x d = (case x of None \<Rightarrow> d | Some v \<Rightarrow> v)"

subsection \<open>Errors\<close>

text \<open>
  \<open>ValueError\<close> is what \<open>validate_issuer_url\<close> raises (the specification calls it
  \<open>InvalidIssuer\<close>), with its message; \<open>ValidationError\<close> is the failure of a
  metadata model to accept its arguments.
\<close>

datatype error = ValueError string | ValidationError

subsection \<open>URLs\<close>

text \<open>
  An \<open>AnyHttpUrl\<close> that the module receives (the issuer, the resource, the
  documentation link) is read through the attributes \<open>scheme\<close>, \<open>host\<close>,
  \<open>query\<close>, \<open>fragment\<close> and through \<open>str(url)\<close>; the record holds these five
  observations. The URL class itself belongs to a third-party library.
\<close>

record any_http_url =
  scheme :: string
  host :: "string option"
  query :: "string option"
  fragment :: "string option"
  str :: string

text \<open>
  A URL that the module builds, \<open>AnyHttpUrl(text)\<close>, is represented by the text
  handed to the constructor; the library's parsing of that text is not modelled.
\<close>

datatype built_url = AnyHttpUrl string

subsection \<open>Settings\<close>

text \<open>
  Modelled from the spec: the declarations of \<open>ClientRegistrationOptions\<close> and
  \<open>RevocationOptions\<close> (module \<open>mcp.server.auth.settings\<close>) are missing. The
  registration policy is \<open>{enabled, valid scopes}\<close>, the revocation policy is
  \<open>{enabled}\<close>; these are the fields the module reads.
\<close>

record client_registration_options =
  enabled :: bool
  valid_scopes :: "string list option"

record revocation_options =
  enabled :: bool

text \<open>
  What the module imports and cannot be read from its own text: the name of the
  protocol-version header and the two settings objects that the constructors
  \<open>ClientRegistrationOptions()\<close> and \<open>RevocationOptions()\<close> build without arguments.
  They are parameters of the model.
\<close>

record externals =
  MCP_PROTOCOL_VERSION_HEADER :: string
  ClientRegistrationOptions_default :: client_registration_options
  RevocationOptions_default :: revocation_options

subsection \<open>Issuer validation\<close>

definition validate_issuer_url :: "any_http_url \<Rightarrow> error + unit" where
  "validate_issuer_url url =
     (if scheme url \<noteq> ''https''
         \<and> host url \<noteq> Some ''localhost''
         \<and> (case host url of None \<Rightarrow> False | Some h \<Rightarrow> \<not> startswith h ''127.0.0.1'')
      then Inl (ValueError ''Issuer URL must be HTTPS'')
      else if truthy (fragment url)
      then Inl (ValueError ''Issuer URL must not have a fragment'')
      else if truthy (query url)
      then Inl (ValueError ''Issuer URL must not have a query string'')
      else Inr ())"

subsection \<open>Path constants\<close>

definition AUTHORIZATION_PATH :: string where
  "AUTHORIZATION_PATH = ''/authorize''"

definition TOKEN_PATH :: string where
  "TOKEN_PATH = ''/token''"

definition REGISTRATION_PATH :: string where
  "REGISTRATION_PATH = ''/register''"

definition REVOCATION_PATH :: string where
  "REVOCATION_PATH = ''/revoke''"

subsection \<open>The authorization-server metadata document\<close>

text \<open>
  Modelled from the spec: the declaration of \<open>OAuthMetadata\<close> (module
  \<open>mcp.shared.auth\<close>) is missing. The record has the fields that \<open>build_metadata\<close>
  passes or assigns. The issuer and the two mandatory endpoints are always
  there, the four fixed capability lists are lists, every other field is
  optional and \<open>None\<close> stands for an absent field. The three fields that
  \<open>build_metadata\<close> assigns after construction come last; the constructor leaves
  them absent.
\<close>

record oauth_metadata =
  issuer :: any_http_url
  authorization_endpoint :: built_url
  token_endpoint :: built_url
  scopes_supported :: "string list option"
  response_types_supported :: "string list"
  response_modes_supported :: "string list option"
  grant_types_supported :: "string list"
  token_endpoint_auth_methods_supported :: "string list"
  token_endpoint_auth_signing_alg_values_supported :: "string list option"
  service_documentation :: "any_http_url option"
  ui_locales_supported :: "string list option"
  op_policy_uri :: "built_url option"
  op_tos_uri :: "built_url option"
  introspection_endpoint :: "built_url option"
  code_challenge_methods_supported :: "string list"
  registration_endpoint :: "built_url option"
  revocation_endpoint :: "built_url option"
  revocation_endpoint_auth_methods_supported :: "string list option"

definition build_metadata ::
  "any_http_url \<Rightarrow> any_http_url option \<Rightarrow> client_registration_options \<Rightarrow>
   revocation_options \<Rightarrow> oauth_metadata" where
  "build_metadata issuer_url service_documentation_url client_registration_options
     revocation_options =
     (let authorization_url = AnyHttpUrl (rstrip (str issuer_url) ''/'' @ AUTHORIZATION_PATH);
          token_url = AnyHttpUrl (rstrip (str issuer_url) ''/'' @ TOKEN_PATH);
          metadata =
            \<lparr> issuer = issuer_url,
              authorization_endpoint = authorization_url,
              token_endpoint = token_url,
              oauth_metadata.scopes_supported =
                valid_scopes client_registration_options,
              response_types_supported = [''code''],
              response_modes_supported = None,
              grant_types_supported = [''authorization_code'', ''refresh_token''],
              token_endpoint_auth_methods_supported = [''client_secret_post''],
              token_endpoint_auth_signing_alg_values_supported = None,
              service_documentation = service_documentation_url,
              ui_locales_supported = None,
              op_policy_uri = None,
              op_tos_uri = None,
              introspection_endpoint = None,
              code_challenge_methods_supported = [''S256''],
              registration_endpoint = None,
              revocation_endpoint = None,
              revocation_endpoint_auth_methods_supported = None \<rparr>;
          metadata =
            (if client_registration_options.enabled client_registration_options
             then metadata
               \<lparr> registration_endpoint :=
                   Some (AnyHttpUrl (rstrip (str issuer_url) ''/'' @ REGISTRATION_PATH)) \<rparr>
             else metadata);
          metadata =
            (if revocation_options.enabled revocation_options
             then metadata
               \<lparr> revocation_endpoint :=
                   Some (AnyHttpUrl (rstrip (str issuer_url) ''/'' @ REVOCATION_PATH)),
                 revocation_endpoint_auth_methods_supported := Some [''client_secret_post''] \<rparr>
             else metadata)
      in metadata)"

subsection \<open>The served metadata document\<close>

text \<open>
  A JSON value, as far as the metadata document needs one: \<open>null\<close>, a string, or
  an array. A JSON object is the list of its members, in order.
\<close>

datatype json = JNull | JString string | JArray "json list"

type_synonym json_object = "(string \<times> json) list"

definition url_json :: "built_url \<Rightarrow> json" where
  "url_json u = (case u of AnyHttpUrl s \<Rightarrow> JString s)"

definition issuer_json :: "any_http_url \<Rightarrow> json" where
  "issuer_json u = JString (str u)"

definition strings_json :: "string list \<Rightarrow> json" where
  "strings_json xs = JArray (map JString xs)"

text \<open>
  The member of an optional field: none when the field is absent, and never a
  member whose value is \<open>null\<close>.
\<close>

definition json_member :: "string \<Rightarrow> ('a \<Rightarrow> json) \<Rightarrow> 'a option \<Rightarrow> json_object" where
  "json_member k enc v = (case v of None \<Rightarrow> [] | Some x \<Rightarrow> [(k, enc x)])"

text \<open>
  Modelled from the spec: \<open>MetadataHandler\<close> (module
  \<open>mcp.server.auth.handlers.metadata\<close>), which serves the document, is missing.
  The wire document is a JSON object with the fields of the metadata; the
  serialization layer keeps a field's absence by omitting the field and does
  not emit an explicit \<open>null\<close>. A URL is written as its text, a list of strings
  as an array of strings.
\<close>

definition metadata_document :: "oauth_metadata \<Rightarrow> json_object" where
  "metadata_document m =
     [ (''issuer'', issuer_json (issuer m)),
       (''authorization_endpoint'', url_json (authorization_endpoint m)),
       (''token_endpoint'', url_json (token_endpoint m)) ]
     @ json_member ''scopes_supported'' strings_json (oauth_metadata.scopes_supported m)
     @ [ (''response_types_supported'', strings_json (response_types_supported m)) ]
     @ json_member ''response_modes_supported'' strings_json (response_modes_supported m)
     @ [ (''grant_types_supported'', strings_json (grant_types_supported m)),
         (''token_endpoint_auth_methods_supported'',
            strings_json (token_endpoint_auth_methods_supported m)) ]
     @ json_member ''token_endpoint_auth_signing_alg_values_supported'' strings_json
         (token_endpoint_auth_signing_alg_values_supported m)
     @ json_member ''service_documentation'' issuer_json (service_documentation m)
     @ json_member ''ui_locales_supported'' strings_json (ui_locales_supported m)
     @ json_member ''op_policy_uri'' url_json (op_policy_uri m)
     @ json_member ''op_tos_uri'' url_json (op_tos_uri m)
     @ json_member ''introspection_endpoint'' url_json (introspection_endpoint m)
     @ [ (''code_challenge_methods_supported'',
            strings_json (code_challenge_methods_supported m)) ]
     @ json_member ''registration_endpoint'' url_json (registration_endpoint m)
     @ json_member ''revocation_endpoint'' url_json (revocation_endpoint m)
     @ json_member ''revocation_endpoint_auth_methods_supported'' strings_json
         (revocation_endpoint_auth_methods_supported m)"

subsection \<open>The protected-resource metadata document\<close>

text \<open>
  Modelled from the spec: the declaration of \<open>ProtectedResourceMetadata\<close> (module
  \<open>mcp.shared.auth\<close>) is missing. The document has a resource identifier, the
  list of trusted authorization servers, optional supported scopes and the
  bearer-token delivery methods, which default to header-only (the source's
  comment says the same). The list of trusted issuers must not be empty: an
  empty one is a configuration error and the construction fails.
\<close>

record protected_resource_metadata =
  resource :: any_http_url
  authorization_servers :: "any_http_url list"
  scopes_supported :: "string list option"
  bearer_methods_supported :: "string list"

text \<open>
  Modelled from the spec: the constructor of \<open>ProtectedResourceMetadata\<close> is
  missing. Called with a resource, the trusted issuers and the optional scopes,
  it fails on an empty list of issuers and otherwise builds the document with
  header-only bearer methods.
\<close>

definition ProtectedResourceMetadata ::
  "any_http_url \<Rightarrow> any_http_url list \<Rightarrow> string list option \<Rightarrow>
   error + protected_resource_metadata" where
  "ProtectedResourceMetadata resource_url servers scopes =
     (if servers = [] then Inl ValidationError
      else Inr \<lparr> resource = resource_url,
                 authorization_servers = servers,
                 protected_resource_metadata.scopes_supported = scopes,
                 bearer_methods_supported = [''header''] \<rparr>)"

subsection \<open>Handlers, cross-origin wrapping and routes\<close>

text \<open>
  The handlers are opaque collaborators: each is recorded with the arguments
  the module constructs it from. \<open>'p\<close> is the provider.
\<close>

datatype 'p client_authenticator = ClientAuthenticator 'p

datatype 'p handler =
    MetadataHandler oauth_metadata
  | AuthorizationHandler 'p
  | TokenHandler 'p "'p client_authenticator"
  | RegistrationHandler 'p client_registration_options
  | RevocationHandler 'p "'p client_authenticator"
  | ProtectedResourceMetadataHandler protected_resource_metadata

datatype 'p asgi_app = request_response "'p handler"

record 'p cors_app =
  app :: "'p asgi_app"
  allow_origins :: string
  allow_methods :: "string list"
  allow_headers :: "string list"

text \<open>
  A route's endpoint is either a handler's method as it is, or the
  \<open>CORSMiddleware\<close> application that \<open>cors_middleware\<close> returns.
\<close>

datatype 'p endpoint = Plain "'p handler" | CORSMiddleware "'p cors_app"

record 'p route =
  path :: string
  endpoint :: "'p endpoint"
  methods :: "string list"

definition cors_middleware ::
  "externals \<Rightarrow> 'p handler \<Rightarrow> string list \<Rightarrow> 'p endpoint" where
  "cors_middleware ext handler allowed =
     CORSMiddleware
       \<lparr> app = request_response handler,
         allow_origins = ''*'',
         allow_methods = allowed,
         allow_headers = [MCP_PROTOCOL_VERSION_HEADER ext] \<rparr>"

definition create_auth_routes ::
  "externals \<Rightarrow> 'p \<Rightarrow> any_http_url \<Rightarrow> any_http_url option \<Rightarrow>
   client_registration_options option \<Rightarrow> revocation_options option \<Rightarrow>
   error + 'p route list" where
  "create_auth_routes ext provider issuer_url service_documentation_url
     client_registration_options revocation_options =
     (case validate_issuer_url issuer_url of
        Inl e \<Rightarrow> Inl e
      | Inr _ \<Rightarrow>
         (let client_registration_options =
                or_default client_registration_options (ClientRegistrationOptions_default ext);
              revocation_options =
                or_default revocation_options (RevocationOptions_default ext);
              metadata = build_metadata issuer_url service_documentation_url
                           client_registration_options revocation_options;
              client_authenticator = ClientAuthenticator provider;
              routes =
                [ \<lparr> path = ''/.well-known/oauth-authorization-server'',
                    endpoint = cors_middleware ext (MetadataHandler metadata)
                                 [''GET'', ''OPTIONS''],
                    methods = [''GET'', ''OPTIONS''] \<rparr>,
                  \<lparr> path = AUTHORIZATION_PATH,
                    endpoint = Plain (AuthorizationHandler provider),
                    methods = [''GET'', ''POST''] \<rparr>,
                  \<lparr> path = TOKEN_PATH,
                    endpoint = cors_middleware ext (TokenHandler provider client_authenticator)
                                 [''POST'', ''OPTIONS''],
                    methods = [''POST'', ''OPTIONS''] \<rparr> ];
              routes =
                (if client_registration_options.enabled client_registration_options
                 then routes @
                   [ \<lparr> path = REGISTRATION_PATH,
                       endpoint = cors_middleware ext
                                    (RegistrationHandler provider client_registration_options)
                                    [''POST'', ''OPTIONS''],
                       methods = [''POST'', ''OPTIONS''] \<rparr> ]
                 else routes);
              routes =
                (if revocation_options.enabled revocation_options
                 then routes @
                   [ \<lparr> path = REVOCATION_PATH,
                       endpoint = cors_middleware ext
                                    (RevocationHandler provider client_authenticator)
                                    [''POST'', ''OPTIONS''],
                       methods = [''POST'', ''OPTIONS''] \<rparr> ]
                 else routes)
          in Inr routes))"

definition create_protected_resource_routes ::
  "externals \<Rightarrow> any_http_url \<Rightarrow> any_http_url list \<Rightarrow> string list option \<Rightarrow>
   error + 'p route list" where
  "create_protected_resource_routes ext resource_url servers scopes =
     (case ProtectedResourceMetadata resource_url servers scopes of
        Inl e \<Rightarrow> Inl e
      | Inr metadata \<Rightarrow>
         (let handler = ProtectedResourceMetadataHandler metadata
          in Inr [ \<lparr> path = ''/.well-known/oauth-protected-resource'',
                     endpoint = cors_middleware ext handler [''GET'', ''OPTIONS''],
                     methods = [''GET'', ''OPTIONS''] \<rparr> ]))"

subsection \<open>The specification's reading of trailing-slash stripping\<close>

text \<open>
  The specification's words "strips exactly one trailing slash": a string that
  ends in a slash loses that one slash, any other string is unchanged. It is
  compared below with \<open>rstrip\<close>, which is what the code calls.
\<close>

definition strip_one_trailing_slash :: "string \<Rightarrow> string" where
  "strip_one_trailing_slash s = (if s \<noteq> [] \<and> last s = CHR ''/'' then butlast s else s)"

subsection \<open>The specification's reading of issuer acceptance\<close>


subsection \<open>Example configurations\<close>

text \<open>The issuers and policies of the specification's examples.\<close>

definition auth_example_issuer :: any_http_url where
  "auth_example_issuer =
     \<lparr> scheme = ''https'', host = Some ''auth.example.com'', query = None,
       fragment = None, str = ''https://auth.example.com'' \<rparr>"

definition localhost_issuer :: any_http_url where
  "localhost_issuer =
     \<lparr> scheme = ''http'', host = Some ''localhost'', query = None,
       fragment = None, str = ''http://localhost:8080/'' \<rparr>"

text \<open>An issuer whose text ends in two slashes.\<close>

definition double_slash_issuer :: any_http_url where
  "double_slash_issuer =
     \<lparr> scheme = ''https'', host = Some ''auth.example.com'', query = None,
       fragment = None, str = ''https://auth.example.com//'' \<rparr>"


definition resource_example :: any_http_url where
  "resource_example =
     \<lparr> scheme = ''https'', host = Some ''res.example.com'', query = None,
       fragment = None, str = ''https://res.example.com'' \<rparr>"

definition registration_off :: client_registration_options where
  "registration_off = \<lparr> client_registration_options.enabled = False, valid_scopes = None \<rparr>"

definition registration_read_write :: client_registration_options where
  "registration_read_write =
     \<lparr> client_registration_options.enabled = True,
       valid_scopes = Some [''read'', ''write''] \<rparr>"

definition revocation_off :: revocation_options where
  "revocation_off = \<lparr> revocation_options.enabled = False \<rparr>"

definition revocation_on :: revocation_options where
  "revocation_on = \<lparr> revocation_options.enabled = True \<rparr>"

definition example_externals :: externals where
  "example_externals =
     \<lparr> MCP_PROTOCOL_VERSION_HEADER = ''mcp-protocol-version'',
       ClientRegistrationOptions_default = registration_off,
       RevocationOptions_default = revocation_off \<rparr>"

section \<open>Issuer validation\<close>




text \<open>
  Claim C10: an issuer URL whose host is absent (\<open>None\<close>) and that carries no
  fragment and no query is accepted whatever its scheme is; and the rejection
  "Issuer URL must be HTTPS" is raised exactly when the scheme is not \<open>https\<close>
  and a host is present that is neither \<open>localhost\<close> nor a string starting
  with \<open>127.0.0.1\<close>.
\<close>

theorem validate_issuer_url_hostless_accepted:
  "(host url = None \<and> \<not> truthy (fragment url) \<and> \<not> truthy (query url) \<longrightarrow>
      validate_issuer_url url = Inr ()) \<and>
   (validate_issuer_url url = Inl (ValueError ''Issuer URL must be HTTPS'') \<longleftrightarrow>
      scheme url \<noteq> ''https'' \<and>
      (\<exists>h. host url = Some h \<and> h \<noteq> ''localhost'' \<and> \<not> startswith h ''127.0.0.1''))"
  by (auto simp: validate_issuer_url_def split: option.splits)

text \<open>Claim C10 at a URL value without a host and with the scheme \<open>http\<close>.\<close>

theorem validate_issuer_url_hostless_accepted_witness:
  "validate_issuer_url
     \<lparr> scheme = ''http'', host = None, query = None, fragment = None, str = ''http:'' \<rparr>
     = Inr () \<and>
   scheme \<lparr> scheme = ''http'', host = None, query = None, fragment = None, str = ''http:'' \<rparr>
     \<noteq> ''https''"
  using validate_issuer_url_hostless_accepted
    [of "\<lparr> scheme = ''http'', host = None, query = None, fragment = None, str = ''http:'' \<rparr>"]
  by (simp add: truthy_def)

section \<open>Trailing slashes\<close>

lemma rstrip_Nil: "rstrip [] chars = []"
  by (simp add: rstrip_def)

lemma rstrip_snoc:
  "rstrip (s @ [c]) chars = (if c \<in> set chars then rstrip s chars else s @ [c])"
  by (simp add: rstrip_def)

text \<open>What \<open>rstrip\<close> removes from a string is a run of slashes at its end.\<close>

lemma rstrip_decomp: "\<exists>n. s = rstrip s ''/'' @ replicate n CHR ''/''"
proof (induction s rule: rev_induct)
  case Nil
  show ?case by (simp add: rstrip_Nil)
next
  case (snoc c s)
  then obtain n where n: "s = rstrip s ''/'' @ replicate n CHR ''/''" by blast
  show ?case
  proof (cases "c = CHR ''/''")
    case True
    have strip: "rstrip (s @ [c]) ''/'' = rstrip s ''/''"
      using True by (simp add: rstrip_snoc)
    have "s @ [c] = (rstrip s ''/'' @ replicate n CHR ''/'') @ [CHR ''/'']"
      using n True by simp
    also have "\<dots> = rstrip s ''/'' @ replicate (Suc n) CHR ''/''"
      by (simp add: replicate_append_same)
    finally have e: "s @ [c] = rstrip s ''/'' @ replicate (Suc n) CHR ''/''" .
    have "s @ [c] = rstrip (s @ [c]) ''/'' @ replicate (Suc n) CHR ''/''"
      by (subst strip) (rule e)
    then show ?thesis by (rule exI)
  next
    case False
    have "s @ [c] = rstrip (s @ [c]) ''/'' @ replicate 0 CHR ''/''"
      using False by (simp add: rstrip_snoc)
    then show ?thesis by (rule exI)
  qed
qed

text \<open>What \<open>rstrip\<close> leaves does not end in a slash.\<close>

lemma rstrip_last: "rstrip s ''/'' \<noteq> [] \<Longrightarrow> last (rstrip s ''/'') \<noteq> CHR ''/''"
  by (induction s rule: rev_induct) (auto simp: rstrip_Nil rstrip_snoc split: if_splits)

text \<open>
  On a string that does not end in two slashes, \<open>rstrip\<close> and the removal of
  exactly one trailing slash agree.
\<close>

lemma rstrip_strip_one:
  assumes "\<not> (\<exists>t. s = t @ ''//'')"
  shows "rstrip s ''/'' = strip_one_trailing_slash s"
proof (cases s rule: rev_cases)
  case Nil
  then show ?thesis by (simp add: rstrip_Nil strip_one_trailing_slash_def)
next
  case (snoc t c)
  show ?thesis
  proof (cases "c = CHR ''/''")
    case False
    with snoc show ?thesis by (simp add: rstrip_snoc strip_one_trailing_slash_def)
  next
    case True
    have "rstrip t ''/'' = t"
    proof (cases t rule: rev_cases)
      case Nil
      then show ?thesis by (simp add: rstrip_Nil)
    next
      case (snoc u d)
      with assms \<open>s = t @ [c]\<close> True have "d \<noteq> CHR ''/''" by auto
      with snoc show ?thesis by (simp add: rstrip_snoc)
    qed
    with snoc True show ?thesis by (simp add: rstrip_snoc strip_one_trailing_slash_def)
  qed
qed

section \<open>The metadata document\<close>

lemma build_metadata_authorization_endpoint:
  "authorization_endpoint (build_metadata i d r v)
     = AnyHttpUrl (rstrip (str i) ''/'' @ ''/authorize'')"
  by (simp add: build_metadata_def Let_def AUTHORIZATION_PATH_def)

lemma build_metadata_token_endpoint:
  "token_endpoint (build_metadata i d r v) = AnyHttpUrl (rstrip (str i) ''/'' @ ''/token'')"
  by (simp add: build_metadata_def Let_def TOKEN_PATH_def)

text \<open>
  Claim C2: for every issuer and registration policy, the document that
  \<open>build_metadata\<close> produces has a \<open>registration_endpoint\<close> if and only if the
  registration policy is enabled, and then its value is the issuer's text with
  the trailing slashes stripped (\<open>rstrip\<close>, as the code strips them) followed
  by \<open>/register\<close>. No assumption on the issuer is needed.
\<close>

theorem build_metadata_registration_endpoint:
  "registration_endpoint (build_metadata i d r v) =
     (if client_registration_options.enabled r
      then Some (AnyHttpUrl (rstrip (str i) ''/'' @ ''/register'')) else None) \<and>
   (registration_endpoint (build_metadata i d r v) \<noteq> None)
     = client_registration_options.enabled r"
  by (simp add: build_metadata_def Let_def REGISTRATION_PATH_def)

text \<open>
  Claim C2 at the specification's examples: \<open>http://localhost:8080/\<close> with
  registration enabled, and \<open>https://auth.example.com\<close> with registration
  disabled.
\<close>

theorem build_metadata_registration_endpoint_witness:
  "registration_endpoint
     (build_metadata localhost_issuer None registration_read_write revocation_on)
     = Some (AnyHttpUrl ''http://localhost:8080/register'') \<and>
   registration_endpoint
     (build_metadata auth_example_issuer None registration_off revocation_off) = None"
  using build_metadata_registration_endpoint
      [of localhost_issuer None registration_read_write revocation_on]
    build_metadata_registration_endpoint
      [of auth_example_issuer None registration_off revocation_off]
  by (simp add: localhost_issuer_def registration_read_write_def registration_off_def
      rstrip_def)

lemma map_of_json_member:
  "map_of (json_member k enc v) k' = (if k' = k then map_option enc v else None)"
  by (simp add: json_member_def split: option.splits)

lemma json_member_no_null:
  assumes "\<And>x. enc x \<noteq> JNull"
  shows "(k', JNull) \<notin> set (json_member k enc v)"
proof (cases v)
  case None
  then show ?thesis by (simp add: json_member_def)
next
  case (Some x)
  from assms [of x] have "JNull \<noteq> enc x" by (rule not_sym)
  with Some show ?thesis by (simp add: json_member_def)
qed

lemma url_json_no_null: "url_json u \<noteq> JNull" "JNull \<noteq> url_json u"
  by (simp_all add: url_json_def split: built_url.splits)

lemma issuer_json_no_null: "issuer_json u \<noteq> JNull" "JNull \<noteq> issuer_json u"
  by (simp_all add: issuer_json_def)

lemma strings_json_no_null: "strings_json xs \<noteq> JNull" "JNull \<noteq> strings_json xs"
  by (simp_all add: strings_json_def)

text \<open>The served document has a member for a revocation field exactly when the
  field holds a value, and no member of the document is \<open>null\<close>.\<close>

lemma document_revocation_endpoint:
  "map_of (metadata_document m) ''revocation_endpoint''
     = map_option url_json (revocation_endpoint m)"
  by (cases "revocation_endpoint m")
     (simp_all add: metadata_document_def map_of_json_member map_add_def)

lemma document_revocation_methods:
  "map_of (metadata_document m) ''revocation_endpoint_auth_methods_supported''
     = map_option strings_json (revocation_endpoint_auth_methods_supported m)"
  by (cases "revocation_endpoint_auth_methods_supported m")
     (simp_all add: metadata_document_def map_of_json_member map_add_def)

lemma document_no_null: "(k, JNull) \<notin> set (metadata_document m)"
  by (simp add: metadata_document_def json_member_no_null url_json_no_null
      issuer_json_no_null strings_json_no_null)

lemma in_keys_iff: "(k \<in> fst ` set kvs) = (map_of kvs k \<noteq> None)"
  by (simp add: map_of_eq_None_iff)

text \<open>
  Claim C3: for every issuer and revocation policy, the document that
  \<open>build_metadata\<close> produces has the \<open>revocation_endpoint\<close> field and the
  \<open>revocation_endpoint_auth_methods_supported\<close> field if and only if the
  revocation policy is enabled, always both or neither. When the policy is
  enabled the endpoint is the issuer's text with the trailing slashes stripped
  followed by \<open>/revoke\<close>, and the methods are \<open>['client_secret_post']\<close>. When it
  is disabled the code assigns neither field, and in the served document both
  fields are omitted: the JSON object has no member of either name, and so
  none whose value is \<open>null\<close>.
\<close>

theorem build_metadata_revocation_endpoint:
  "revocation_endpoint (build_metadata i d r v) =
     (if revocation_options.enabled v
      then Some (AnyHttpUrl (rstrip (str i) ''/'' @ ''/revoke'')) else None) \<and>
   revocation_endpoint_auth_methods_supported (build_metadata i d r v) =
     (if revocation_options.enabled v then Some [''client_secret_post''] else None) \<and>
   (revocation_endpoint (build_metadata i d r v) \<noteq> None)
     = revocation_options.enabled v \<and>
   (revocation_endpoint_auth_methods_supported (build_metadata i d r v) \<noteq> None)
     = revocation_options.enabled v \<and>
   map_of (metadata_document (build_metadata i d r v)) ''revocation_endpoint'' =
     (if revocation_options.enabled v
      then Some (JString (rstrip (str i) ''/'' @ ''/revoke'')) else None) \<and>
   map_of (metadata_document (build_metadata i d r v))
       ''revocation_endpoint_auth_methods_supported'' =
     (if revocation_options.enabled v
      then Some (JArray [JString ''client_secret_post'']) else None) \<and>
   (''revocation_endpoint'' \<in> fst ` set (metadata_document (build_metadata i d r v)))
     = revocation_options.enabled v \<and>
   (''revocation_endpoint_auth_methods_supported''
      \<in> fst ` set (metadata_document (build_metadata i d r v)))
     = revocation_options.enabled v \<and>
   (''revocation_endpoint'', JNull) \<notin> set (metadata_document (build_metadata i d r v)) \<and>
   (''revocation_endpoint_auth_methods_supported'', JNull)
      \<notin> set (metadata_document (build_metadata i d r v))"
proof -
  have e: "revocation_endpoint (build_metadata i d r v) =
     (if revocation_options.enabled v
      then Some (AnyHttpUrl (rstrip (str i) ''/'' @ ''/revoke'')) else None)"
    by (simp add: build_metadata_def Let_def REVOCATION_PATH_def)
  have a: "revocation_endpoint_auth_methods_supported (build_metadata i d r v) =
     (if revocation_options.enabled v then Some [''client_secret_post''] else None)"
    by (simp add: build_metadata_def Let_def)
  show ?thesis
    unfolding in_keys_iff document_revocation_endpoint document_revocation_methods e a
    by (simp add: document_no_null url_json_def strings_json_def)
qed

text \<open>
  Claim C3 at the specification's two examples: with revocation enabled the
  served document carries both members, with revocation disabled it carries
  neither name.
\<close>

theorem build_metadata_revocation_endpoint_witness:
  "revocation_endpoint
     (build_metadata localhost_issuer None registration_read_write revocation_on)
     = Some (AnyHttpUrl ''http://localhost:8080/revoke'') \<and>
   revocation_endpoint_auth_methods_supported
     (build_metadata localhost_issuer None registration_read_write revocation_on)
     = Some [''client_secret_post''] \<and>
   map_of (metadata_document
       (build_metadata localhost_issuer None registration_read_write revocation_on))
     ''revocation_endpoint'' = Some (JString ''http://localhost:8080/revoke'') \<and>
   map_of (metadata_document
       (build_metadata localhost_issuer None registration_read_write revocation_on))
     ''revocation_endpoint_auth_methods_supported''
     = Some (JArray [JString ''client_secret_post'']) \<and>
   revocation_endpoint
     (build_metadata auth_example_issuer None registration_off revocation_off) = None \<and>
   revocation_endpoint_auth_methods_supported
     (build_metadata auth_example_issuer None registration_off revocation_off) = None \<and>
   ''revocation_endpoint'' \<notin> fst ` set (metadata_document
       (build_metadata auth_example_issuer None registration_off revocation_off)) \<and>
   ''revocation_endpoint_auth_methods_supported'' \<notin> fst ` set (metadata_document
       (build_metadata auth_example_issuer None registration_off revocation_off))"
proof -
  have on: "revocation_options.enabled revocation_on"
    by (simp add: revocation_on_def)
  have off: "\<not> revocation_options.enabled revocation_off"
    by (simp add: revocation_off_def)
  have stripped: "rstrip (str localhost_issuer) ''/'' = ''http://localhost:8080''"
    by (simp add: localhost_issuer_def rstrip_def)
  from build_metadata_revocation_endpoint
      [of localhost_issuer None registration_read_write revocation_on]
    build_metadata_revocation_endpoint
      [of auth_example_issuer None registration_off revocation_off]
  show ?thesis
    unfolding if_P [OF on] if_not_P [OF off] stripped by (simp add: on off)
qed

text \<open>
  Claim C4, as stated, fails: for an issuer whose text ends in two slashes the
  code removes both before it appends the path segment. With the issuer text
  \<open>https://auth.example.com//\<close> the authorization endpoint is
  \<open>https://auth.example.com/authorize\<close>, whereas removing exactly one slash
  would give \<open>https://auth.example.com//authorize\<close>.
\<close>

theorem build_metadata_double_slash_counterexample:
  "authorization_endpoint
     (build_metadata double_slash_issuer None registration_off revocation_off)
     = AnyHttpUrl ''https://auth.example.com/authorize'' \<and>
   AnyHttpUrl (strip_one_trailing_slash (str double_slash_issuer) @ ''/authorize'')
     = AnyHttpUrl ''https://auth.example.com//authorize'' \<and>
   authorization_endpoint
     (build_metadata double_slash_issuer None registration_off revocation_off)
     \<noteq> AnyHttpUrl (strip_one_trailing_slash (str double_slash_issuer) @ ''/authorize'')"
  by (simp add: build_metadata_def Let_def AUTHORIZATION_PATH_def double_slash_issuer_def
      rstrip_def strip_one_trailing_slash_def)

text \<open>
  Claim C4, amended: for every issuer, \<open>build_metadata\<close> derives the
  authorization endpoint and the token endpoint by stripping every trailing
  slash from the issuer's text (what is removed is a run of slashes, what is
  left does not end in a slash) and appending \<open>/authorize\<close> and \<open>/token\<close>.
  For an issuer that does not end in two slashes this removes exactly one
  trailing slash or none. For the issuer \<open>https://auth.example.com\<close>, written
  with or without its final slash, the endpoints are
  \<open>https://auth.example.com/authorize\<close> and \<open>https://auth.example.com/token\<close>.
\<close>

theorem build_metadata_endpoints_rstrip:
  "authorization_endpoint (build_metadata i d r v)
     = AnyHttpUrl (rstrip (str i) ''/'' @ ''/authorize'') \<and>
   token_endpoint (build_metadata i d r v)
     = AnyHttpUrl (rstrip (str i) ''/'' @ ''/token'') \<and>
   (\<exists>n. str i = rstrip (str i) ''/'' @ replicate n CHR ''/'') \<and>
   (rstrip (str i) ''/'' \<noteq> [] \<longrightarrow> last (rstrip (str i) ''/'') \<noteq> CHR ''/'') \<and>
   (\<not> (\<exists>t. str i = t @ ''//'') \<longrightarrow>
      rstrip (str i) ''/'' = strip_one_trailing_slash (str i)) \<and>
   (str i = ''https://auth.example.com'' \<or> str i = ''https://auth.example.com/'' \<longrightarrow>
      authorization_endpoint (build_metadata i d r v)
        = AnyHttpUrl ''https://auth.example.com/authorize'' \<and>
      token_endpoint (build_metadata i d r v)
        = AnyHttpUrl ''https://auth.example.com/token'')"
proof (intro conjI impI)
  show "authorization_endpoint (build_metadata i d r v)
     = AnyHttpUrl (rstrip (str i) ''/'' @ ''/authorize'')"
    by (rule build_metadata_authorization_endpoint)
  show "token_endpoint (build_metadata i d r v)
     = AnyHttpUrl (rstrip (str i) ''/'' @ ''/token'')"
    by (rule build_metadata_token_endpoint)
  show "\<exists>n. str i = rstrip (str i) ''/'' @ replicate n CHR ''/''"
    by (rule rstrip_decomp)
  show "last (rstrip (str i) ''/'') \<noteq> CHR ''/''" if "rstrip (str i) ''/'' \<noteq> []"
    using that by (rule rstrip_last)
  show "rstrip (str i) ''/'' = strip_one_trailing_slash (str i)"
    if "\<not> (\<exists>t. str i = t @ ''//'')"
    using that by (rule rstrip_strip_one)
next
  assume "str i = ''https://auth.example.com'' \<or> str i = ''https://auth.example.com/''"
  then have stripped: "rstrip (str i) ''/'' = ''https://auth.example.com''"
    by (auto simp: rstrip_def)
  show "authorization_endpoint (build_metadata i d r v)
        = AnyHttpUrl ''https://auth.example.com/authorize''"
    by (simp add: build_metadata_authorization_endpoint stripped)
  show "token_endpoint (build_metadata i d r v)
        = AnyHttpUrl ''https://auth.example.com/token''"
    by (simp add: build_metadata_token_endpoint stripped)
qed

text \<open>
  The amended C4 at the specification's example, the issuer
  \<open>https://auth.example.com\<close> with both policies disabled.
\<close>

theorem build_metadata_endpoints_rstrip_witness:
  "authorization_endpoint
     (build_metadata auth_example_issuer None registration_off revocation_off)
     = AnyHttpUrl ''https://auth.example.com/authorize'' \<and>
   token_endpoint
     (build_metadata auth_example_issuer None registration_off revocation_off)
     = AnyHttpUrl ''https://auth.example.com/token''"
  using build_metadata_endpoints_rstrip
      [of auth_example_issuer None registration_off revocation_off]
  by (simp add: auth_example_issuer_def rstrip_def)

text \<open>
  Claim C7: for every input, the document that \<open>build_metadata\<close> produces has
  the fixed capability lists (response types \<open>['code']\<close>, grant types
  \<open>['authorization_code', 'refresh_token']\<close>, token endpoint auth methods
  \<open>['client_secret_post']\<close>, code-challenge methods \<open>['S256']\<close>), its supported
  scopes are the registration policy's valid scopes verbatim (absent when none
  are given), and the response modes, signing-algorithm values, UI locales,
  policy URI, terms-of-service URI and introspection endpoint are absent.
\<close>

theorem build_metadata_fixed_capabilities:
  "response_types_supported (build_metadata i d r v) = [''code''] \<and>
   grant_types_supported (build_metadata i d r v)
     = [''authorization_code'', ''refresh_token''] \<and>
   token_endpoint_auth_methods_supported (build_metadata i d r v)
     = [''client_secret_post''] \<and>
   code_challenge_methods_supported (build_metadata i d r v) = [''S256''] \<and>
   oauth_metadata.scopes_supported (build_metadata i d r v) = valid_scopes r \<and>
   response_modes_supported (build_metadata i d r v) = None \<and>
   token_endpoint_auth_signing_alg_values_supported (build_metadata i d r v) = None \<and>
   ui_locales_supported (build_metadata i d r v) = None \<and>
   op_policy_uri (build_metadata i d r v) = None \<and>
   op_tos_uri (build_metadata i d r v) = None \<and>
   introspection_endpoint (build_metadata i d r v) = None"
  by (simp add: build_metadata_def Let_def)

text \<open>
  Claim C7 at the specification's examples: scopes \<open>["read", "write"]\<close> are
  passed on as they are, and no scopes give an absent field.
\<close>

theorem build_metadata_fixed_capabilities_witness:
  "oauth_metadata.scopes_supported
     (build_metadata localhost_issuer None registration_read_write revocation_on)
     = Some [''read'', ''write''] \<and>
   oauth_metadata.scopes_supported
     (build_metadata auth_example_issuer None registration_off revocation_off) = None \<and>
   grant_types_supported
     (build_metadata auth_example_issuer None registration_off revocation_off)
     = [''authorization_code'', ''refresh_token'']"
  using build_metadata_fixed_capabilities
      [of localhost_issuer None registration_read_write revocation_on]
    build_metadata_fixed_capabilities
      [of auth_example_issuer None registration_off revocation_off]
  by (simp add: registration_read_write_def registration_off_def)

section \<open>The route tables\<close>

text \<open>
  Claim C5: for every provider, validated issuer, registration policy and
  revocation policy, \<open>create_auth_routes\<close> returns a table whose length is 3,
  plus 1 if registration is enabled, plus 1 if revocation is enabled. Its
  first three entries are, in this order, the metadata discovery path with
  the methods GET and OPTIONS, the authorization path with GET and POST, and
  the token path with POST and OPTIONS. The entries after them are the
  registration entry, if enabled, and then the revocation entry, if enabled.
  The policy in force is the one passed in, or the settings' default when
  none is passed.
\<close>

theorem create_auth_routes_table:
  assumes "validate_issuer_url issuer_url = Inr ()"
  shows "\<exists>routes.
     create_auth_routes ext provider issuer_url doc reg revo = Inr routes \<and>
     length routes =
       3 + (if client_registration_options.enabled
                 (or_default reg (ClientRegistrationOptions_default ext)) then 1 else 0)
         + (if revocation_options.enabled
                 (or_default revo (RevocationOptions_default ext)) then 1 else 0) \<and>
     map (\<lambda>r. (path r, methods r)) (take 3 routes) =
       [ (''/.well-known/oauth-authorization-server'', [''GET'', ''OPTIONS'']),
         (''/authorize'', [''GET'', ''POST'']),
         (''/token'', [''POST'', ''OPTIONS'']) ] \<and>
     map path (drop 3 routes) =
       (if client_registration_options.enabled
             (or_default reg (ClientRegistrationOptions_default ext))
        then [''/register''] else []) @
       (if revocation_options.enabled
             (or_default revo (RevocationOptions_default ext))
        then [''/revoke''] else [])"
  using assms
  by (simp add: create_auth_routes_def Let_def AUTHORIZATION_PATH_def TOKEN_PATH_def
      REGISTRATION_PATH_def REVOCATION_PATH_def)

text \<open>
  Claim C5 at the specification's examples: \<open>https://auth.example.com\<close> with no
  policy given (the defaults are disabled) has 3 entries;
  \<open>http://localhost:8080/\<close> with both policies enabled has 5, registration
  before revocation.
\<close>

theorem create_auth_routes_table_witness:
  "validate_issuer_url auth_example_issuer = Inr () \<and>
   (\<exists>routes. create_auth_routes example_externals () auth_example_issuer None None None
        = Inr routes \<and> length routes = 3) \<and>
   validate_issuer_url localhost_issuer = Inr () \<and>
   (\<exists>routes. create_auth_routes example_externals () localhost_issuer None
        (Some registration_read_write) (Some revocation_on) = Inr routes \<and>
      length routes = 5 \<and> map path (drop 3 routes) = [''/register'', ''/revoke''])"
proof -
  have a: "validate_issuer_url auth_example_issuer = Inr ()"
    by (simp add: validate_issuer_url_def auth_example_issuer_def truthy_def)
  have l: "validate_issuer_url localhost_issuer = Inr ()"
    by (simp add: validate_issuer_url_def localhost_issuer_def truthy_def)
  have off: "\<not> client_registration_options.enabled
                 (or_default None (ClientRegistrationOptions_default example_externals))"
       "\<not> revocation_options.enabled
                 (or_default None (RevocationOptions_default example_externals))"
    by (simp_all add: or_default_def example_externals_def registration_off_def
        revocation_off_def)
  have on: "client_registration_options.enabled
                 (or_default (Some registration_read_write)
                    (ClientRegistrationOptions_default example_externals))"
       "revocation_options.enabled
                 (or_default (Some revocation_on) (RevocationOptions_default example_externals))"
    by (simp_all add: or_default_def registration_read_write_def revocation_on_def)
  from create_auth_routes_table [OF a, of example_externals "()" None None None]
  have three: "\<exists>routes.
      create_auth_routes example_externals () auth_example_issuer None None None
        = Inr routes \<and> length routes = 3"
    unfolding if_not_P [OF off(1)] if_not_P [OF off(2)] by auto
  from create_auth_routes_table [OF l, of example_externals "()" None
      "Some registration_read_write" "Some revocation_on"]
  have five: "\<exists>routes. create_auth_routes example_externals () localhost_issuer None
        (Some registration_read_write) (Some revocation_on) = Inr routes \<and>
      length routes = 5 \<and> map path (drop 3 routes) = [''/register'', ''/revoke'']"
    unfolding if_P [OF on(1)] if_P [OF on(2)] by auto
  from a three l five show ?thesis by blast
qed

text \<open>
  Claim C6: every table that \<open>create_auth_routes\<close> returns consists of these
  entries, in this order. The metadata discovery entry is wrapped by
  \<open>cors_middleware\<close>; the authorization entry is the authorization handler
  itself, not wrapped; the token entry is wrapped; the registration entry and
  the revocation entry, when their policy is enabled, are wrapped. Every
  wrapped entry's cross-origin policy allows every origin (\<open>*\<close>), allows
  exactly the methods the entry lists, and allows exactly one header, the
  protocol-version header. So the authorization entry is the only one without
  a cross-origin policy.
\<close>

theorem create_auth_routes_cors:
  assumes "validate_issuer_url issuer_url = Inr ()"
  shows "\<exists>routes.
     create_auth_routes ext provider issuer_url doc reg revo = Inr routes \<and>
     map (\<lambda>r. (path r, methods r, endpoint r)) routes =
       [ (''/.well-known/oauth-authorization-server'', [''GET'', ''OPTIONS''],
          CORSMiddleware
            \<lparr> app = request_response
                (MetadataHandler
                  (build_metadata issuer_url doc
                    (or_default reg (ClientRegistrationOptions_default ext))
                    (or_default revo (RevocationOptions_default ext)))),
              allow_origins = ''*'',
              allow_methods = [''GET'', ''OPTIONS''],
              allow_headers = [MCP_PROTOCOL_VERSION_HEADER ext] \<rparr>),
         (''/authorize'', [''GET'', ''POST''], Plain (AuthorizationHandler provider)),
         (''/token'', [''POST'', ''OPTIONS''],
          CORSMiddleware
            \<lparr> app = request_response (TokenHandler provider (ClientAuthenticator provider)),
              allow_origins = ''*'',
              allow_methods = [''POST'', ''OPTIONS''],
              allow_headers = [MCP_PROTOCOL_VERSION_HEADER ext] \<rparr>) ]
       @ (if client_registration_options.enabled
               (or_default reg (ClientRegistrationOptions_default ext))
          then [ (''/register'', [''POST'', ''OPTIONS''],
                  CORSMiddleware
                    \<lparr> app = request_response
                        (RegistrationHandler provider
                          (or_default reg (ClientRegistrationOptions_default ext))),
                      allow_origins = ''*'',
                      allow_methods = [''POST'', ''OPTIONS''],
                      allow_headers = [MCP_PROTOCOL_VERSION_HEADER ext] \<rparr>) ]
          else [])
       @ (if revocation_options.enabled (or_default revo (RevocationOptions_default ext))
          then [ (''/revoke'', [''POST'', ''OPTIONS''],
                  CORSMiddleware
                    \<lparr> app = request_response
                        (RevocationHandler provider (ClientAuthenticator provider)),
                      allow_origins = ''*'',
                      allow_methods = [''POST'', ''OPTIONS''],
                      allow_headers = [MCP_PROTOCOL_VERSION_HEADER ext] \<rparr>) ]
          else []) \<and>
     (\<exists>r \<in> set routes. path r = ''/authorize'') \<and>
     (\<forall>r \<in> set routes.
        (path r = ''/authorize'' \<longrightarrow> endpoint r = Plain (AuthorizationHandler provider)) \<and>
        (path r \<noteq> ''/authorize'' \<longrightarrow>
           (\<exists>h. endpoint r =
              CORSMiddleware
                \<lparr> app = request_response h, allow_origins = ''*'',
                  allow_methods = methods r,
                  allow_headers = [MCP_PROTOCOL_VERSION_HEADER ext] \<rparr>)))"
  using assms
  by (simp add: create_auth_routes_def Let_def cors_middleware_def AUTHORIZATION_PATH_def
      TOKEN_PATH_def REGISTRATION_PATH_def REVOCATION_PATH_def)

text \<open>
  Claim C6 at the issuer \<open>http://localhost:8080/\<close> with both policies enabled:
  the table has five entries, and all but the authorization entry are wrapped.
\<close>

theorem create_auth_routes_cors_witness:
  "validate_issuer_url localhost_issuer = Inr () \<and>
   (\<exists>routes.
     create_auth_routes example_externals () localhost_issuer None
       (Some registration_read_write) (Some revocation_on) = Inr routes \<and>
     map (\<lambda>r. (path r, case endpoint r of Plain _ \<Rightarrow> False | CORSMiddleware _ \<Rightarrow> True))
         routes =
       [ (''/.well-known/oauth-authorization-server'', True),
         (''/authorize'', False),
         (''/token'', True),
         (''/register'', True),
         (''/revoke'', True) ])"
proof -
  have l: "validate_issuer_url localhost_issuer = Inr ()"
    by (simp add: validate_issuer_url_def localhost_issuer_def truthy_def)
  have on: "client_registration_options.enabled
                 (or_default (Some registration_read_write)
                    (ClientRegistrationOptions_default example_externals))"
       "revocation_options.enabled
                 (or_default (Some revocation_on) (RevocationOptions_default example_externals))"
    by (simp_all add: or_default_def registration_read_write_def revocation_on_def)
  from create_auth_routes_cors [OF l, of example_externals "()" None
      "Some registration_read_write" "Some revocation_on"]
  obtain routes where
    r: "create_auth_routes example_externals () localhost_issuer None
          (Some registration_read_write) (Some revocation_on) = Inr routes"
    and m: "map (\<lambda>r. (path r, methods r, endpoint r)) routes =
       [ (''/.well-known/oauth-authorization-server'', [''GET'', ''OPTIONS''],
          CORSMiddleware
            \<lparr> app = request_response
                (MetadataHandler
                  (build_metadata localhost_issuer None
                    (or_default (Some registration_read_write)
                       (ClientRegistrationOptions_default example_externals))
                    (or_default (Some revocation_on)
                       (RevocationOptions_default example_externals)))),
              allow_origins = ''*'',
              allow_methods = [''GET'', ''OPTIONS''],
              allow_headers = [MCP_PROTOCOL_VERSION_HEADER example_externals] \<rparr>),
         (''/authorize'', [''GET'', ''POST''], Plain (AuthorizationHandler ())),
         (''/token'', [''POST'', ''OPTIONS''],
          CORSMiddleware
            \<lparr> app = request_response (TokenHandler () (ClientAuthenticator ())),
              allow_origins = ''*'',
              allow_methods = [''POST'', ''OPTIONS''],
              allow_headers = [MCP_PROTOCOL_VERSION_HEADER example_externals] \<rparr>) ]
       @ [ (''/register'', [''POST'', ''OPTIONS''],
                  CORSMiddleware
                    \<lparr> app = request_response
                        (RegistrationHandler ()
                          (or_default (Some registration_read_write)
                             (ClientRegistrationOptions_default example_externals))),
                      allow_origins = ''*'',
                      allow_methods = [''POST'', ''OPTIONS''],
                      allow_headers = [MCP_PROTOCOL_VERSION_HEADER example_externals] \<rparr>) ]
       @ [ (''/revoke'', [''POST'', ''OPTIONS''],
                  CORSMiddleware
                    \<lparr> app = request_response
                        (RevocationHandler () (ClientAuthenticator ())),
                      allow_origins = ''*'',
                      allow_methods = [''POST'', ''OPTIONS''],
                      allow_headers = [MCP_PROTOCOL_VERSION_HEADER example_externals] \<rparr>) ]"
    unfolding if_P [OF on(1)] if_P [OF on(2)] by (elim exE conjE)
  have "map (\<lambda>r. (path r, case endpoint r of Plain _ \<Rightarrow> False | CORSMiddleware _ \<Rightarrow> True))
          routes
        = map (\<lambda>(p, ms, e). (p, case e of Plain _ \<Rightarrow> False | CORSMiddleware _ \<Rightarrow> True))
            (map (\<lambda>r. (path r, methods r, endpoint r)) routes)"
    by (simp add: comp_def)
  also have "\<dots> = [ (''/.well-known/oauth-authorization-server'', True),
         (''/authorize'', False), (''/token'', True), (''/register'', True),
         (''/revoke'', True) ]"
    unfolding m by simp
  finally have f:
    "map (\<lambda>r. (path r, case endpoint r of Plain _ \<Rightarrow> False | CORSMiddleware _ \<Rightarrow> True))
       routes =
       [ (''/.well-known/oauth-authorization-server'', True),
         (''/authorize'', False), (''/token'', True), (''/register'', True),
         (''/revoke'', True) ]" .
  show ?thesis
  proof (intro conjI exI)
    show "validate_issuer_url localhost_issuer = Inr ()" by (rule l)
    show "create_auth_routes example_externals () localhost_issuer None
       (Some registration_read_write) (Some revocation_on) = Inr routes" by (rule r)
    show "map (\<lambda>r. (path r, case endpoint r of Plain _ \<Rightarrow> False | CORSMiddleware _ \<Rightarrow> True))
       routes =
       [ (''/.well-known/oauth-authorization-server'', True),
         (''/authorize'', False), (''/token'', True), (''/register'', True),
         (''/revoke'', True) ]" by (rule f)
  qed
qed

text \<open>
  Claim C8, as stated, fails for the empty list of trusted issuers: the
  metadata document cannot be built from it, and no table is returned.
\<close>

theorem create_protected_resource_routes_empty_counterexample:
  "(create_protected_resource_routes example_externals resource_example [] None
      :: error + unit route list) = Inl ValidationError"
  by (simp add: create_protected_resource_routes_def ProtectedResourceMetadata_def)

text \<open>
  Claim C8, amended: for every resource URL, every non-empty list of trusted
  issuers and every optional scope list, \<open>create_protected_resource_routes\<close>
  returns a table of exactly one entry, at the path
  \<open>/.well-known/oauth-protected-resource\<close>, with the methods GET and OPTIONS and
  a cross-origin policy. The document it serves has the resource as given,
  the list of authorization servers as given, the scopes as given (absent
  when none are given), and bearer-token delivery by header only.
\<close>

theorem create_protected_resource_routes_single_entry:
  assumes "servers \<noteq> []"
  shows "\<exists>r m.
     create_protected_resource_routes ext resource_url servers scopes = Inr [r] \<and>
     path r = ''/.well-known/oauth-protected-resource'' \<and>
     methods r = [''GET'', ''OPTIONS''] \<and>
     endpoint r =
       CORSMiddleware
         \<lparr> app = request_response (ProtectedResourceMetadataHandler m),
           allow_origins = ''*'',
           allow_methods = [''GET'', ''OPTIONS''],
           allow_headers = [MCP_PROTOCOL_VERSION_HEADER ext] \<rparr> \<and>
     resource m = resource_url \<and>
     authorization_servers m = servers \<and>
     protected_resource_metadata.scopes_supported m = scopes \<and>
     bearer_methods_supported m = [''header'']"
  using assms
  by (simp add: create_protected_resource_routes_def ProtectedResourceMetadata_def
      cors_middleware_def)

text \<open>
  The amended C8 at the specification's example: the resource
  \<open>https://res.example.com\<close>, the trusted issuer \<open>https://auth.example.com\<close>, no
  scopes.
\<close>

theorem create_protected_resource_routes_single_entry_witness:
  "[auth_example_issuer] \<noteq> [] \<and>
   (\<exists>r m.
     (create_protected_resource_routes example_externals resource_example
        [auth_example_issuer] None :: error + unit route list) = Inr [r] \<and>
     path r = ''/.well-known/oauth-protected-resource'' \<and>
     methods r = [''GET'', ''OPTIONS''] \<and>
     endpoint r =
       CORSMiddleware
         \<lparr> app = request_response (ProtectedResourceMetadataHandler m),
           allow_origins = ''*'',
           allow_methods = [''GET'', ''OPTIONS''],
           allow_headers = [''mcp-protocol-version''] \<rparr> \<and>
     resource m = resource_example \<and>
     authorization_servers m = [auth_example_issuer] \<and>
     protected_resource_metadata.scopes_supported m = None \<and>
     bearer_methods_supported m = [''header''])"
proof -
  have ne: "[auth_example_issuer] \<noteq> []" by simp
  have h: "MCP_PROTOCOL_VERSION_HEADER example_externals = ''mcp-protocol-version''"
    by (simp add: example_externals_def)
  from create_protected_resource_routes_single_entry
      [OF ne, of example_externals resource_example None]
  show ?thesis unfolding h using ne by blast
qed

text \<open>
  Claim C9: with an empty list of trusted authorization servers
  \<open>create_protected_resource_routes\<close> fails with an error and produces no table;
  it produces a table exactly when the list is not empty.
\<close>

theorem create_protected_resource_routes_empty_fails:
  "(\<exists>e. create_protected_resource_routes ext resource_url [] scopes = Inl e) \<and>
   ((\<exists>routes. create_protected_resource_routes ext resource_url servers scopes = Inr routes)
      \<longleftrightarrow> servers \<noteq> [])"
  by (simp add: create_protected_resource_routes_def ProtectedResourceMetadata_def)

text \<open>
  Claim C9 at the resource \<open>https://res.example.com\<close>: no table with an empty
  list, a table with one trusted issuer.
\<close>

theorem create_protected_resource_routes_empty_fails_witness:
  "(\<exists>e. (create_protected_resource_routes example_externals resource_example []
           (Some [''read'']) :: error + unit route list) = Inl e) \<and>
   (\<exists>routes. (create_protected_resource_routes example_externals resource_example
           [auth_example_issuer] (Some [''read'']) :: error + unit route list) = Inr routes)"
  using create_protected_resource_routes_empty_fails
      [of example_externals resource_example "Some [''read'']" "[auth_example_issuer]"]
  by simp

end
